theory Spec2Isabelle
  imports Complex_Main "HOL-Library.AList"
begin

section \<open>Values of the request and of the database\<close>

text \<open>
  The routes read \<^verbatim>\<open>amount\<close> from the JSON body without validation, so it is a
  JavaScript value: a number, a string or \<^verbatim>\<open>undefined\<close>. A finite number is a rational
  (binary rounding is not modelled), \<open>NaN\<close> is the number that is not one.
\<close>

datatype number = NaN | Finite rat

datatype json = Absent | Num number | Txt string

text \<open>
  A \<^verbatim>\<open>decimal(10,2)\<close> column holds a number of cents below \<open>10 ^ 10\<close> in absolute value, or
  PostgreSQL's special value \<^verbatim>\<open>NaN\<close>.
\<close>

datatype decimal = NaN_decimal | Decimal int

definition dollars :: "int \<Rightarrow> int" where
  "dollars n = 100 * n"

text \<open>A whole number of cents as a JavaScript number.\<close>

definition cents :: "int \<Rightarrow> number" where
  "cents c = Finite (of_int c / 100)"

subsection \<open>Decimal numerals\<close>

text \<open>
  The numerals both JavaScript's \<^verbatim>\<open>Number(string)\<close> and PostgreSQL's numeric input read
  alike: spaces around, an optional sign, digits with an optional fraction. Exponents,
  radix prefixes and the word \<^verbatim>\<open>Infinity\<close> are not modelled.
\<close>

definition digit_of :: "char \<Rightarrow> nat option" where
  "digit_of c =
     (let code = (of_char c :: nat)
      in if 48 \<le> code \<and> code \<le> 57 then Some (code - 48) else None)"

fun digits_value :: "string \<Rightarrow> nat \<Rightarrow> nat option" where
  "digits_value [] acc = Some acc"
| "digits_value (c # cs) acc =
     (case digit_of c of None \<Rightarrow> None | Some d \<Rightarrow> digits_value cs (10 * acc + d))"

definition unsigned_numeral :: "string \<Rightarrow> rat option" where
  "unsigned_numeral x =
     (let whole = takeWhile (\<lambda>c. c \<noteq> CHR ''.'') x;
          fraction = drop 1 (dropWhile (\<lambda>c. c \<noteq> CHR ''.'') x)
      in if whole = [] \<and> fraction = [] then None
         else (case (digits_value whole 0, digits_value fraction 0) of
                 (Some w, Some f) \<Rightarrow> Some (of_nat w + of_nat f / 10 ^ length fraction)
               | _ \<Rightarrow> None))"

definition signed_numeral :: "string \<Rightarrow> rat option" where
  "signed_numeral x =
     (case x of
        [] \<Rightarrow> None
      | c # cs \<Rightarrow>
          if c = CHR ''-'' then map_option uminus (unsigned_numeral cs)
          else if c = CHR ''+'' then unsigned_numeral cs
          else unsigned_numeral x)"

definition trim :: "string \<Rightarrow> string" where
  "trim x = rev (dropWhile (\<lambda>c. c = CHR '' '') (rev (dropWhile (\<lambda>c. c = CHR '' '') x)))"

text \<open>The digits of a natural number, and the numeral JavaScript prints for a number of cents.\<close>

function digits_of :: "nat \<Rightarrow> string" where
  "digits_of n =
     (if n < 10 then [''0123456789'' ! n]
      else digits_of (n div 10) @ [''0123456789'' ! (n mod 10)])"
  by pat_completeness auto
termination
  by (relation "measure (\<lambda>n. n)") auto

definition fraction_of :: "nat \<Rightarrow> string" where
  "fraction_of f =
     (if f = 0 then []
      else CHR ''.'' # ''0123456789'' ! (f div 10)
             # (if f mod 10 = 0 then [] else [''0123456789'' ! (f mod 10)]))"

definition cents_toString :: "int \<Rightarrow> string" where
  "cents_toString c =
     (if c < 0 then ''-'' else []) @ digits_of (nat \<bar>c\<bar> div 100) @ fraction_of (nat \<bar>c\<bar> mod 100)"

subsection \<open>JavaScript operators on the amount\<close>

text \<open>\<^verbatim>\<open>Number(text)\<close>: the empty string is 0, what is no numeral is \<open>NaN\<close>.\<close>

definition string_to_number :: "string \<Rightarrow> number" where
  "string_to_number x =
     (if trim x = [] then Finite 0
      else (case signed_numeral (trim x) of None \<Rightarrow> NaN | Some r \<Rightarrow> Finite r))"

definition to_number :: "json \<Rightarrow> number" where
  "to_number v = (case v of Absent \<Rightarrow> NaN | Num n \<Rightarrow> n | Txt x \<Rightarrow> string_to_number x)"

text \<open>\<^verbatim>\<open>a < b\<close> on numbers: false when either side is \<open>NaN\<close>.\<close>

definition less_number :: "number \<Rightarrow> number \<Rightarrow> bool" where
  "less_number a b =
     (case (a, b) of (Finite x, Finite y) \<Rightarrow> x < y | _ \<Rightarrow> False)"

definition add_number :: "number \<Rightarrow> number \<Rightarrow> number" where
  "add_number a b =
     (case (a, b) of (Finite x, Finite y) \<Rightarrow> Finite (x + y) | _ \<Rightarrow> NaN)"

text \<open>\<^verbatim>\<open>-amount\<close>: the operand is converted to a number first.\<close>

definition negate :: "json \<Rightarrow> json" where
  "negate v = (case to_number v of NaN \<Rightarrow> Num NaN | Finite r \<Rightarrow> Num (Finite (- r)))"

text \<open>\<^verbatim>\<open>!v\<close> is \<open>\<not> truthy_json v\<close>.\<close>

definition truthy_json :: "json \<Rightarrow> bool" where
  "truthy_json v =
     (case v of
        Absent \<Rightarrow> False
      | Num NaN \<Rightarrow> False
      | Num (Finite r) \<Rightarrow> r \<noteq> 0
      | Txt x \<Rightarrow> x \<noteq> [])"

text \<open>
  \<^verbatim>\<open>Number(column)\<close> of a decimal column, which the driver returns as text, and the text
  JavaScript prints for that number.
\<close>

definition number_of_decimal :: "decimal \<Rightarrow> number" where
  "number_of_decimal d = (case d of NaN_decimal \<Rightarrow> NaN | Decimal c \<Rightarrow> cents c)"

definition decimal_toString :: "decimal \<Rightarrow> string" where
  "decimal_toString d = (case d of NaN_decimal \<Rightarrow> ''NaN'' | Decimal c \<Rightarrow> cents_toString c)"

text \<open>
  \<^verbatim>\<open>Number(column) + v\<close>: addition when \<open>v\<close> is a number, concatenation of the printed
  number and \<open>v\<close> when \<open>v\<close> is a string.
\<close>

definition plus_json :: "decimal \<Rightarrow> json \<Rightarrow> json" where
  "plus_json d v =
     (case v of
        Absent \<Rightarrow> Num NaN
      | Num n \<Rightarrow> Num (add_number (number_of_decimal d) n)
      | Txt x \<Rightarrow> Txt (decimal_toString d @ x))"

subsection \<open>Writing a decimal(10,2) column\<close>

text \<open>
  What the database raises. A text that is no numeral is refused when the statement's
  parameters are read, before the statement runs; the other errors arise while it runs.
\<close>

datatype db_error =
    InvalidTextRepresentation
  | NumericFieldOverflow
  | ForeignKeyViolation
  | NotNullViolation

text \<open>Rounding to the cent, half away from zero, and the capacity of the column.\<close>

definition round_cents :: "rat \<Rightarrow> int" where
  "round_cents r = (if 0 \<le> r then \<lfloor>r * 100 + 1 / 2\<rfloor> else - \<lfloor>- r * 100 + 1 / 2\<rfloor>)"

definition fits :: "int \<Rightarrow> bool" where
  "fits c = (\<bar>c\<bar> < 10 ^ 10)"

text \<open>
  Reading the parameter: the text of the value (\<^verbatim>\<open>toString\<close> of a number denotes the
  number) as a numeric, not yet rounded. \<open>None\<close> inside is \<^verbatim>\<open>NaN\<close>.
\<close>

definition is_NaN_text :: "string \<Rightarrow> bool" where
  "is_NaN_text x =
     (x \<in> set [''NaN'', ''nan'', ''NAN'', ''Nan'', ''nAn'', ''naN'', ''NAn'', ''nAN''])"

definition numeric_in :: "json \<Rightarrow> db_error + rat option" where
  "numeric_in v =
     (case v of
        Absent \<Rightarrow> Inl NotNullViolation
      | Num NaN \<Rightarrow> Inr None
      | Num (Finite r) \<Rightarrow> Inr (Some r)
      | Txt x \<Rightarrow>
          if is_NaN_text (trim x) then Inr None
          else (case signed_numeral (trim x) of
                  None \<Rightarrow> Inl InvalidTextRepresentation
                | Some r \<Rightarrow> Inr (Some r)))"

text \<open>Coercing the numeric to \<^verbatim>\<open>decimal(10,2)\<close> while the statement runs.\<close>

definition to_decimal :: "rat option \<Rightarrow> db_error + decimal" where
  "to_decimal x =
     (case x of
        None \<Rightarrow> Inr NaN_decimal
      | Some r \<Rightarrow> if fits (round_cents r) then Inr (Decimal (round_cents r))
                  else Inl NumericFieldOverflow)"

section \<open>Data model (shared/schema.ts)\<close>

text \<open>
  The tables of \<^verbatim>\<open>shared/schema.ts\<close>. Primary keys are \<^verbatim>\<open>serial\<close> columns, so a table is
  a map from the key to the row together with the next value of its sequence.
  Timestamps are clock readings, a \<open>nat\<close>.
\<close>

datatype role = RoleUser | RoleAdmin

datatype plan_status = Active | Inactive

datatype transaction_type = Deposit | Withdrawal | Profit

datatype transaction_status = Pending | Completed | Rejected | Failed

datatype message_status = Unread | Read | Replied

record user =
  email :: string
  password :: string
  fullName :: "string option"
  phone :: "string option"
  balance :: decimal
  role :: role
  userCreatedAt :: nat
  userUpdatedAt :: nat

record investment_plan =
  planName :: string
  minAmount :: decimal
  maxAmount :: decimal
  dailyProfit :: decimal
  planStatus :: plan_status

record investment =
  invId :: nat
  invUserId :: nat
  invPlanId :: nat
  invAmount :: decimal
  startDate :: nat
  isActive :: bool
  invCreatedAt :: nat
  invUpdatedAt :: nat

record transaction =
  txId :: nat
  txUserId :: nat
  txType :: transaction_type
  txAmount :: decimal
  txCurrency :: "string option"
  txWalletAddress :: "string option"
  txReason :: "string option"
  txStatus :: transaction_status
  txCreatedAt :: nat
  txUpdatedAt :: nat

record chat_message =
  msgId :: nat
  msgUserId :: nat
  msgContent :: string
  msgStatus :: message_status
  adminResponse :: "string option"
  adminId :: "nat option"
  msgCreatedAt :: nat
  msgUpdatedAt :: nat

text \<open>
  No handler opens a database transaction: every \<^verbatim>\<open>insert\<close> and \<^verbatim>\<open>update\<close> is a statement
  of its own and is committed when it ends. \<open>committed\<close> lists the states of the tables
  after each statement that has written, oldest first; a sequence is not part of them
  (it advances outside any transaction).
\<close>

record snapshot =
  usersAt :: "nat \<rightharpoonup> user"
  investmentsAt :: "nat \<rightharpoonup> investment"
  transactionsAt :: "nat \<rightharpoonup> transaction"
  chatMessagesAt :: "nat \<rightharpoonup> chat_message"

record store =
  users :: "nat \<rightharpoonup> user"
  investmentPlans :: "nat \<rightharpoonup> investment_plan"
  investments :: "nat \<rightharpoonup> investment"
  transactions :: "nat \<rightharpoonup> transaction"
  chatMessages :: "nat \<rightharpoonup> chat_message"
  investments_id_seq :: nat
  transactions_id_seq :: nat
  chat_messages_id_seq :: nat
  committed :: "snapshot list"

definition snapshot_of :: "store \<Rightarrow> snapshot" where
  "snapshot_of s =
     \<lparr>usersAt = users s, investmentsAt = investments s, transactionsAt = transactions s,
      chatMessagesAt = chatMessages s\<rparr>"

definition commit :: "store \<Rightarrow> store" where
  "commit s = s\<lparr>committed := committed s @ [snapshot_of s]\<rparr>"

text \<open>
  What a storage method throws. \<open>UserNotFound\<close> is \<^verbatim>\<open>Error("User with id ... not found")\<close>,
  \<open>InsufficientBalance\<close> is \<^verbatim>\<open>Error("Insufficient balance")\<close>, \<open>TransactionRequires\<close> and
  \<open>InvestmentRequires\<close> are the missing-field errors of \<^verbatim>\<open>createTransaction\<close> and
  \<^verbatim>\<open>createInvestment\<close>, \<open>InvalidStatus\<close> is \<^verbatim>\<open>Error("Invalid status: ...")\<close>, \<open>ZodError\<close> is
  what \<^verbatim>\<open>schema.parse\<close> throws and \<open>Database\<close> wraps what the database raises.
\<close>

datatype error =
    UserNotFound "nat option"
  | InsufficientBalance
  | TransactionRequires
  | InvestmentRequires
  | InvalidStatus string
  | ZodError
  | Database db_error

section \<open>Authentication (server/auth.ts)\<close>

text \<open>
  \<^verbatim>\<open>isAuthenticated\<close> puts the payload of the verified token in \<^verbatim>\<open>req.user\<close>. The tokens of
  \<^verbatim>\<open>generateToken\<close> carry \<^verbatim>\<open>userId\<close>, \<^verbatim>\<open>email\<close> and \<^verbatim>\<open>role\<close>; \<^verbatim>\<open>jwt.verify\<close> accepts any payload
  signed with \<^verbatim>\<open>JWT_SECRET\<close>, so \<^verbatim>\<open>req.user\<close> may also carry an \<^verbatim>\<open>id\<close>. The routes read
  \<^verbatim>\<open>req.user!.id\<close>, which is \<open>id_claim\<close>.
\<close>

record payload =
  id_claim :: "nat option"
  userId_claim :: "nat option"
  email_claim :: string
  role_claim :: string

fun role_string :: "role \<Rightarrow> string" where
  "role_string RoleUser = ''user''"
| "role_string RoleAdmin = ''admin''"

definition generateToken :: "nat \<Rightarrow> user \<Rightarrow> payload" where
  "generateToken i u =
     \<lparr>id_claim = None, userId_claim = Some i, email_claim = email u,
      role_claim = role_string (role u)\<rparr>"

section \<open>Storage layer (server/storage.ts)\<close>

text \<open>
  The arguments of \<^verbatim>\<open>createTransaction\<close> and \<^verbatim>\<open>createInvestment\<close> are \<^verbatim>\<open>Partial<...>\<close>
  objects: every field may be \<^verbatim>\<open>undefined\<close>, which is \<open>None\<close> (\<open>Absent\<close> for the amount).
\<close>

record transaction_data =
  tdType :: "transaction_type option"
  tdAmount :: json
  tdUserId :: "nat option"
  tdStatus :: "transaction_status option"
  tdCurrency :: "string option"
  tdWalletAddress :: "string option"
  tdReason :: "string option"

record insert_transaction =
  itType :: transaction_type
  itAmount :: json
  itUserId :: nat
  itStatus :: transaction_status
  itCurrency :: string
  itWalletAddress :: "string option"
  itReason :: "string option"



text \<open>
  \<^verbatim>\<open>insertTransactionSchema\<close> and \<^verbatim>\<open>insertInvestmentSchema\<close> (schema.ts):
  \<^verbatim>\<open>createInsertSchema\<close> types a decimal column as a string, and the refinement
  \<^verbatim>\<open>schema.min(1, ...)\<close> of \<^verbatim>\<open>amount\<close> asks for at least one character. A number is refused.
  The other fields have in the model the types the schema asks for.
\<close>

definition insertTransactionSchema :: "insert_transaction \<Rightarrow> bool" where
  "insertTransactionSchema d = (case itAmount d of Txt x \<Rightarrow> x \<noteq> [] | _ \<Rightarrow> False)"


text \<open>JavaScript truthiness of an optional number and of an optional string.\<close>

definition truthy_nat :: "nat option \<Rightarrow> bool" where
  "truthy_nat x = (case x of None \<Rightarrow> False | Some n \<Rightarrow> n \<noteq> 0)"

definition truthy_string :: "string option \<Rightarrow> bool" where
  "truthy_string x = (case x of None \<Rightarrow> False | Some s \<Rightarrow> s \<noteq> [])"

definition or_null :: "string option \<Rightarrow> string option" where
  "or_null x = (if truthy_string x then x else None)"

text \<open>
  \<^verbatim>\<open>db.query.users.findFirst({where: eq(users.id, id)})\<close>: with an \<^verbatim>\<open>undefined\<close> or \<^verbatim>\<open>NaN\<close>
  id no row is found.
\<close>

definition users_findFirst :: "nat option \<Rightarrow> store \<Rightarrow> user option" where
  "users_findFirst i s = (case i of None \<Rightarrow> None | Some k \<Rightarrow> users s k)"

definition getUser :: "nat option \<Rightarrow> store \<Rightarrow> error + user" where
  "getUser i s = (case users_findFirst i s of None \<Rightarrow> Inl (UserNotFound i) | Some u \<Rightarrow> Inr u)"

text \<open>
  \<^verbatim>\<open>db.update(users).set({balance: newBalance.toString(), updatedAt}).where(eq(users.id, id))
  .returning()\<close>: the text is read as a numeric, the row with this key is rewritten with
  the value coerced to the column and returned; with no such row nothing is written and
  the result is \<^verbatim>\<open>undefined\<close>.
\<close>

definition update_users_balance :: "nat \<Rightarrow> nat option \<Rightarrow> json \<Rightarrow> store \<Rightarrow> (error + user option) \<times> store" where
  "update_users_balance now i newBalance s =
     (case numeric_in newBalance of
        Inl e \<Rightarrow> (Inl (Database e), s)
      | Inr x \<Rightarrow>
          (case i of
             None \<Rightarrow> (Inr None, s)
           | Some k \<Rightarrow>
               (case users s k of
                  None \<Rightarrow> (Inr None, s)
                | Some row \<Rightarrow>
                    (case to_decimal x of
                       Inl e \<Rightarrow> (Inl (Database e), s)
                     | Inr d \<Rightarrow>
                         (let updatedUser = row\<lparr>balance := d, userUpdatedAt := now\<rparr>
                          in (Inr (Some updatedUser),
                              commit (s\<lparr>users := (users s)(k \<mapsto> updatedUser)\<rparr>)))))))"

definition updateUserBalance :: "nat \<Rightarrow> nat option \<Rightarrow> json \<Rightarrow> store \<Rightarrow> (error + user option) \<times> store" where
  "updateUserBalance now i amount s =
     (case getUser i s of
        Inl e \<Rightarrow> (Inl e, s)
      | Inr u \<Rightarrow>
          (let newBalance = plus_json (balance u) amount in
           if less_number (to_number newBalance) (Finite 0) then (Inl InsufficientBalance, s)
           else update_users_balance now i newBalance s))"

text \<open>
  \<^verbatim>\<open>db.insert(transactions).values(insertData).returning()\<close>. Once the parameters are read
  the statement takes the next value of the sequence, also when it then fails.
\<close>

definition insert_transactions :: "nat \<Rightarrow> insert_transaction \<Rightarrow> store \<Rightarrow> (error + transaction) \<times> store" where
  "insert_transactions now d s =
     (case numeric_in (itAmount d) of
        Inl e \<Rightarrow> (Inl (Database e), s)
      | Inr x \<Rightarrow>
          (let i = transactions_id_seq s;
               s1 = s\<lparr>transactions_id_seq := Suc i\<rparr>
           in case to_decimal x of
                Inl e \<Rightarrow> (Inl (Database e), s1)
              | Inr a \<Rightarrow>
                  if users s (itUserId d) = None then (Inl (Database ForeignKeyViolation), s1)
                  else
                    (let row = \<lparr>txId = i, txUserId = itUserId d, txType = itType d, txAmount = a,
                                txCurrency = Some (itCurrency d), txWalletAddress = itWalletAddress d,
                                txReason = itReason d, txStatus = itStatus d,
                                txCreatedAt = now, txUpdatedAt = now\<rparr>
                     in (Inr row, commit (s1\<lparr>transactions := (transactions s)(i \<mapsto> row)\<rparr>)))))"

definition transaction_insertData :: "transaction_type \<Rightarrow> json \<Rightarrow> nat \<Rightarrow> transaction_data \<Rightarrow> insert_transaction" where
  "transaction_insertData ty amount uid td =
     \<lparr>itType = ty, itAmount = amount, itUserId = uid,
      itStatus = (case tdStatus td of None \<Rightarrow> Pending | Some st \<Rightarrow> st),
      itCurrency = (case tdCurrency td of None \<Rightarrow> ''USD''
                    | Some c \<Rightarrow> if c = [] then ''USD'' else c),
      itWalletAddress = or_null (tdWalletAddress td),
      itReason = or_null (tdReason td)\<rparr>"

definition createTransaction :: "nat \<Rightarrow> transaction_data \<Rightarrow> store \<Rightarrow> (error + transaction) \<times> store" where
  "createTransaction now td s =
     (case (tdType td, tdUserId td) of
        (Some ty, Some uid) \<Rightarrow>
          (if \<not> truthy_json (tdAmount td) \<or> \<not> truthy_nat (tdUserId td)
           then (Inl TransactionRequires, s)
           else
             (let insertData = transaction_insertData ty (tdAmount td) uid td
              in if \<not> insertTransactionSchema insertData then (Inl ZodError, s)
                 else insert_transactions now insertData s))
      | _ \<Rightarrow> (Inl TransactionRequires, s))"




text \<open>The values of \<^verbatim>\<open>transactionStatusEnum\<close>, as the strings the routes pass.\<close>

definition transaction_status_of :: "string \<Rightarrow> transaction_status option" where
  "transaction_status_of x =
     (if x = ''pending'' then Some Pending
      else if x = ''completed'' then Some Completed
      else if x = ''rejected'' then Some Rejected
      else if x = ''failed'' then Some Failed
      else None)"

definition updateTransactionStatus :: "nat \<Rightarrow> nat \<Rightarrow> string \<Rightarrow> store \<Rightarrow> (error + transaction option) \<times> store" where
  "updateTransactionStatus now i status s =
     (case transaction_status_of status of
        None \<Rightarrow> (Inl (InvalidStatus status), s)
      | Some st \<Rightarrow>
          (case transactions s i of
             None \<Rightarrow> (Inr None, s)
           | Some row \<Rightarrow>
               (let updatedTransaction = row\<lparr>txStatus := st, txUpdatedAt := now\<rparr>
                in (Inr (Some updatedTransaction),
                    commit (s\<lparr>transactions := (transactions s)(i \<mapsto> updatedTransaction)\<rparr>)))))"

section \<open>Routes of the balance engine (registerRoutes)\<close>

text \<open>
  A handler maps the store to the response it sends (status code and body) and the store
  it leaves. \<open>user\<close> is \<^verbatim>\<open>req.user\<close> as the middleware has set it, \<open>amount\<close> the value of the
  body. The \<^verbatim>\<open>catch\<close> of a handler answers 500 and keeps what was written before the
  exception.
\<close>

datatype body =
    Message string
  | AmountMustBeBetween decimal decimal
  | JsonTransaction "transaction option"
  | JsonInvestment investment

type_synonym response = "nat \<times> body"




text \<open>\<^verbatim>\<open>POST /api/transactions/deposit\<close>\<close>

definition deposit_data :: "nat option \<Rightarrow> json \<Rightarrow> string option \<Rightarrow> transaction_data" where
  "deposit_data userId amount currency =
     \<lparr>tdType = Some Deposit, tdAmount = amount, tdUserId = userId,
      tdStatus = Some Completed, tdCurrency = currency,
      tdWalletAddress = None, tdReason = None\<rparr>"

definition deposit :: "payload \<Rightarrow> nat \<Rightarrow> json \<Rightarrow> string option \<Rightarrow> store \<Rightarrow> response \<times> store" where
  "deposit user now amount currency s =
     (if less_number (to_number amount) (Finite 50)
      then ((400, Message ''Minimum deposit amount is $50''), s)
      else
        (case createTransaction now (deposit_data (id_claim user) amount currency) s of
           (Inl e, s1) \<Rightarrow> ((500, Message ''Error processing deposit''), s1)
         | (Inr t, s1) \<Rightarrow>
             (case updateUserBalance now (id_claim user) amount s1 of
                (Inl e, s2) \<Rightarrow> ((500, Message ''Error processing deposit''), s2)
              | (Inr u, s2) \<Rightarrow> ((201, JsonTransaction (Some t)), s2))))"

text \<open>\<^verbatim>\<open>POST /api/transactions/withdraw\<close>\<close>

definition withdrawal_data ::
  "nat option \<Rightarrow> json \<Rightarrow> string option \<Rightarrow> string option \<Rightarrow> string option \<Rightarrow> transaction_data" where
  "withdrawal_data userId amount currency walletAddress reason =
     \<lparr>tdType = Some Withdrawal, tdAmount = amount, tdUserId = userId,
      tdStatus = Some Pending, tdCurrency = currency,
      tdWalletAddress = walletAddress, tdReason = reason\<rparr>"

definition requestWithdrawal ::
  "payload \<Rightarrow> nat \<Rightarrow> json \<Rightarrow> string option \<Rightarrow> string option \<Rightarrow> string option \<Rightarrow> store
     \<Rightarrow> response \<times> store" where
  "requestWithdrawal user now amount currency walletAddress reason s =
     (if less_number (to_number amount) (Finite 50)
      then ((400, Message ''Minimum withdrawal amount is $50''), s)
      else if (case users_findFirst (id_claim user) s of
                 None \<Rightarrow> True
               | Some u \<Rightarrow> less_number (number_of_decimal (balance u)) (to_number amount))
      then ((400, Message ''Insufficient balance''), s)
      else
        (case createTransaction now
                (withdrawal_data (id_claim user) amount currency walletAddress reason) s of
           (Inl e, s1) \<Rightarrow> ((500, Message ''Error processing withdrawal''), s1)
         | (Inr t, s1) \<Rightarrow>
             (case updateUserBalance now (id_claim user) (negate amount) s1 of
                (Inl e, s2) \<Rightarrow> ((500, Message ''Error processing withdrawal''), s2)
              | (Inr u, s2) \<Rightarrow> ((201, JsonTransaction (Some t)), s2))))"

text \<open>
  The query of both admin routes: the transaction with this id, of type withdrawal and in
  status pending.
\<close>

definition find_pending_withdrawal :: "nat \<Rightarrow> store \<Rightarrow> transaction option" where
  "find_pending_withdrawal withdrawalId s =
     (case transactions s withdrawalId of
        None \<Rightarrow> None
      | Some t \<Rightarrow> if txType t = Withdrawal \<and> txStatus t = Pending then Some t else None)"

text \<open>\<^verbatim>\<open>PATCH /api/admin/withdrawals/:id/approve\<close>\<close>

definition approveWithdrawal :: "nat \<Rightarrow> nat \<Rightarrow> store \<Rightarrow> response \<times> store" where
  "approveWithdrawal now withdrawalId s =
     (case find_pending_withdrawal withdrawalId s of
        None \<Rightarrow> ((404, Message ''Pending withdrawal request not found''), s)
      | Some withdrawal \<Rightarrow>
          (case updateTransactionStatus now withdrawalId ''completed'' s of
             (Inl e, s1) \<Rightarrow> ((500, Message ''Error approving withdrawal request''), s1)
           | (Inr updatedWithdrawal, s1) \<Rightarrow> ((200, JsonTransaction updatedWithdrawal), s1)))"

text \<open>
  \<^verbatim>\<open>PATCH /api/admin/withdrawals/:id/reject\<close>: the credit is
  \<^verbatim>\<open>Number(withdrawal.amount)\<close>, a number.
\<close>

definition rejectWithdrawal :: "nat \<Rightarrow> nat \<Rightarrow> store \<Rightarrow> response \<times> store" where
  "rejectWithdrawal now withdrawalId s =
     (case find_pending_withdrawal withdrawalId s of
        None \<Rightarrow> ((404, Message ''Pending withdrawal request not found''), s)
      | Some withdrawal \<Rightarrow>
          (case updateUserBalance now (Some (txUserId withdrawal))
                  (Num (number_of_decimal (txAmount withdrawal))) s of
             (Inl e, s1) \<Rightarrow> ((500, Message ''Error rejecting withdrawal request''), s1)
           | (Inr u, s1) \<Rightarrow>
               (case updateTransactionStatus now withdrawalId ''rejected'' s1 of
                  (Inl e, s2) \<Rightarrow> ((500, Message ''Error rejecting withdrawal request''), s2)
                | (Inr updatedWithdrawal, s2) \<Rightarrow> ((200, JsonTransaction updatedWithdrawal), s2))))"

section \<open>The ledger of a user\<close>

text \<open>
  The sum of the amounts of the transactions of one user that satisfy a condition, over
  the keys the sequence has handed out (an amount that is \<^verbatim>\<open>NaN\<close> counts 0).
\<close>

definition amount_cents :: "decimal \<Rightarrow> int" where
  "amount_cents d = (case d of NaN_decimal \<Rightarrow> 0 | Decimal c \<Rightarrow> c)"

definition counted :: "(transaction \<Rightarrow> bool) \<Rightarrow> nat \<Rightarrow> transaction option \<Rightarrow> int" where
  "counted P uid x =
     (case x of
        None \<Rightarrow> 0
      | Some t \<Rightarrow> if txUserId t = uid \<and> P t then amount_cents (txAmount t) else 0)"

definition sum_transactions :: "(transaction \<Rightarrow> bool) \<Rightarrow> nat \<Rightarrow> store \<Rightarrow> int" where
  "sum_transactions P uid s =
     sum_list (map (\<lambda>i. counted P uid (transactions s i)) [0..<transactions_id_seq s])"

definition completed_deposits :: "nat \<Rightarrow> store \<Rightarrow> int" where
  "completed_deposits = sum_transactions (\<lambda>t. txType t = Deposit \<and> txStatus t = Completed)"

definition profits :: "nat \<Rightarrow> store \<Rightarrow> int" where
  "profits = sum_transactions (\<lambda>t. txType t = Profit)"

definition withdrawals_created :: "nat \<Rightarrow> store \<Rightarrow> int" where
  "withdrawals_created = sum_transactions (\<lambda>t. txType t = Withdrawal)"

definition withdrawals_rejected :: "nat \<Rightarrow> store \<Rightarrow> int" where
  "withdrawals_rejected = sum_transactions (\<lambda>t. txType t = Withdrawal \<and> txStatus t = Rejected)"

text \<open>The balance of a user, and whether a balance is a number that is not negative.\<close>

definition balance_of :: "nat \<Rightarrow> store \<Rightarrow> decimal option" where
  "balance_of i s = map_option balance (users s i)"

definition nonnegative :: "decimal \<Rightarrow> bool" where
  "nonnegative d = (case d of NaN_decimal \<Rightarrow> False | Decimal c \<Rightarrow> 0 \<le> c)"



section \<open>Chat over the socket (the connection handler of registerRoutes)\<close>

text \<open>
  \<open>clients\<close> is the \<^verbatim>\<open>Map\<close> of the server, keyed by the \<^verbatim>\<open>userId\<close> string of the connection
  URL; a \<^verbatim>\<open>Map\<close> keeps insertion order, so it is an association list. A socket is named by
  a number. \<open>sent\<close> lists the frames handed to \<^verbatim>\<open>send\<close>, \<open>listeners\<close> holds for each socket
  the \<^verbatim>\<open>userId\<close> its \<^verbatim>\<open>message\<close> and \<^verbatim>\<open>close\<close> listeners have captured, \<open>logged\<close> counts the
  calls of \<^verbatim>\<open>console.error\<close>.
\<close>

datatype ready_state = CONNECTING | OPEN | CLOSING | CLOSED

datatype frame = NewMessage chat_message | AdminReply chat_message

record server =
  db :: store
  clients :: "(string \<times> nat) list"
  readyState :: "nat \<Rightarrow> ready_state"
  sent :: "(nat \<times> frame) list"
  listeners :: "nat \<rightharpoonup> string"
  logged :: nat

text \<open>
  \<^verbatim>\<open>wss.on('connection')\<close>: \<open>userId\<close> is \<^verbatim>\<open>req.url?.split('?userId=')[1]\<close>, possibly
  \<^verbatim>\<open>undefined\<close>.
\<close>

definition on_connection :: "string option \<Rightarrow> nat \<Rightarrow> server \<Rightarrow> server" where
  "on_connection userId ws srv =
     (case userId of
        None \<Rightarrow> srv
      | Some uid \<Rightarrow>
          if uid = [] then srv
          else srv\<lparr>clients := AList.update uid ws (clients srv),
                   listeners := (listeners srv)(ws \<mapsto> uid)\<rparr>)"

text \<open>\<^verbatim>\<open>ws.on('close')\<close>: the listener of socket \<open>ws\<close> deletes the key it captured.\<close>

definition on_close :: "nat \<Rightarrow> server \<Rightarrow> server" where
  "on_close ws srv =
     (case listeners srv ws of
        None \<Rightarrow> srv
      | Some uid \<Rightarrow> srv\<lparr>clients := AList.delete uid (clients srv)\<rparr>)"

definition lookup :: "string \<Rightarrow> server \<Rightarrow> nat option" where
  "lookup uid srv = map_of (clients srv) uid"

text \<open>
  The values the broadcast loop handles: \<^verbatim>\<open>db.query.users.findFirst(...)\<close> is not awaited
  there, so \<^verbatim>\<open>user\<close> is the promise of a row, not the row. A promise is an object (truthy)
  without a \<^verbatim>\<open>role\<close> property.
\<close>

datatype js_value = Undefined | Str string | UserRow user | Promise "user option"

fun truthy :: "js_value \<Rightarrow> bool" where
  "truthy Undefined = False"
| "truthy (Str x) = (x \<noteq> [])"
| "truthy (UserRow u) = True"
| "truthy (Promise p) = True"

fun get_role :: "js_value \<Rightarrow> js_value" where
  "get_role (UserRow u) = Str (role_string (role u))"
| "get_role v = Undefined"

text \<open>
  \<^verbatim>\<open>db.insert(chatMessages).values({userId, content, status: "unread"}).returning()\<close>.
  \<open>userId\<close> is \<^verbatim>\<open>parseInt(userId)\<close>, \<open>None\<close> when that is \<^verbatim>\<open>NaN\<close>, which the database refuses
  when it reads the parameters; both columns are \<^verbatim>\<open>notNull\<close> and \<^verbatim>\<open>userId\<close> references
  \<^verbatim>\<open>users.id\<close>.
\<close>

definition insert_chatMessages :: "nat \<Rightarrow> nat option \<Rightarrow> string option \<Rightarrow> store \<Rightarrow> (error + chat_message) \<times> store" where
  "insert_chatMessages now userId content s =
     (case userId of
        None \<Rightarrow> (Inl (Database InvalidTextRepresentation), s)
      | Some uid \<Rightarrow>
          (let i = chat_messages_id_seq s;
               s1 = s\<lparr>chat_messages_id_seq := Suc i\<rparr>
           in case content of
                None \<Rightarrow> (Inl (Database NotNullViolation), s1)
              | Some c \<Rightarrow>
                  if users s uid = None then (Inl (Database ForeignKeyViolation), s1)
                  else
                    (let row = \<lparr>msgId = i, msgUserId = uid, msgContent = c, msgStatus = Unread,
                                adminResponse = None, adminId = None,
                                msgCreatedAt = now, msgUpdatedAt = now\<rparr>
                     in (Inr row, commit (s1\<lparr>chatMessages := (chatMessages s)(i \<mapsto> row)\<rparr>)))))"

text \<open>
  \<^verbatim>\<open>clients.forEach\<close> of the chat branch, over the entries in insertion order.
  \<^verbatim>\<open>parseInt\<close> is a parameter.
\<close>

fun broadcast_to_admins :: "(string \<Rightarrow> nat option) \<Rightarrow> chat_message \<Rightarrow> (string \<times> nat) list \<Rightarrow> server \<Rightarrow> server" where
  "broadcast_to_admins parseInt m [] srv = srv"
| "broadcast_to_admins parseInt m ((clientId, client) # rest) srv =
     (let u = Promise (users_findFirst (parseInt clientId) (db srv))
      in broadcast_to_admins parseInt m rest
           (if truthy u \<and> get_role u = Str ''admin'' \<and> readyState srv client = OPEN
            then srv\<lparr>sent := sent srv @ [(client, NewMessage m)]\<rparr>
            else srv))"

text \<open>
  The \<^verbatim>\<open>message\<close> listener on a frame whose \<^verbatim>\<open>type\<close> is \<^verbatim>\<open>"chat"\<close>: \<open>userId\<close> is the string the
  listener captured, \<open>content\<close> is \<^verbatim>\<open>parsedMessage.content\<close>.
\<close>

definition chat_branch :: "(string \<Rightarrow> nat option) \<Rightarrow> nat \<Rightarrow> string \<Rightarrow> string option \<Rightarrow> server \<Rightarrow> server" where
  "chat_branch parseInt now userId content srv =
     (case insert_chatMessages now (parseInt userId) content (db srv) of
        (Inl e, d) \<Rightarrow> srv\<lparr>db := d, logged := Suc (logged srv)\<rparr>
      | (Inr chatMessage, d) \<Rightarrow>
          broadcast_to_admins parseInt chatMessage (clients srv) (srv\<lparr>db := d\<rparr>))"

section \<open>Example data\<close>

definition alice :: user where
  "alice = \<lparr>email = ''alice@example.com'', password = ''h.s'', fullName = Some ''Alice'',
            phone = None, balance = Decimal (dollars 100), role = RoleUser,
            userCreatedAt = 0, userUpdatedAt = 0\<rparr>"

definition admin :: user where
  "admin = \<lparr>email = ''admin@example.com'', password = ''h.s'', fullName = None,
           phone = None, balance = Decimal 0, role = RoleAdmin,
           userCreatedAt = 0, userUpdatedAt = 0\<rparr>"

definition starter :: investment_plan where
  "starter = \<lparr>planName = ''Starter'', minAmount = Decimal (dollars 100),
              maxAmount = Decimal (dollars 200), dailyProfit = Decimal 100,
              planStatus = Active\<rparr>"

definition store0 :: store where
  "store0 = \<lparr>users = [1 \<mapsto> alice, 2 \<mapsto> admin], investmentPlans = [1 \<mapsto> starter],
             investments = Map.empty, transactions = Map.empty, chatMessages = Map.empty,
             investments_id_seq = 1, transactions_id_seq = 1, chat_messages_id_seq = 1,
             committed = []\<rparr>"

text \<open>
  The payload of the token \<^verbatim>\<open>POST /api/login\<close> issues to Alice, and a payload signed with
  the secret that carries her key as \<^verbatim>\<open>id\<close> as well.
\<close>

definition alice_token :: payload where
  "alice_token = generateToken 1 alice"

definition alice_with_id :: payload where
  "alice_with_id = \<lparr>id_claim = Some 1, userId_claim = Some 1,
                    email_claim = ''alice@example.com'', role_claim = ''user''\<rparr>"

text \<open>A store in which Alice has $40 and a pending withdrawal of $60.\<close>

definition withdrawal1 :: transaction where
  "withdrawal1 = \<lparr>txId = 1, txUserId = 1, txType = Withdrawal, txAmount = Decimal (dollars 60),
                  txCurrency = Some ''USD'', txWalletAddress = Some ''bc1q'', txReason = None,
                  txStatus = Pending, txCreatedAt = 4, txUpdatedAt = 4\<rparr>"

definition store1 :: store where
  "store1 = store0\<lparr>users := (users store0)(1 \<mapsto> alice\<lparr>balance := Decimal (dollars 40), userUpdatedAt := 4\<rparr>),
                   transactions := [1 \<mapsto> withdrawal1], transactions_id_seq := 2\<rparr>"

text \<open>
  A server with no connection yet, on which every socket that connects is open: the admin
  (user 2) connects on socket 10, Alice (user 1) on socket 11.
\<close>

definition server0 :: server where
  "server0 = \<lparr>db = store0, clients = [], readyState = (\<lambda>ws. OPEN), sent = [],
              listeners = Map.empty, logged = 0\<rparr>"

definition server1 :: server where
  "server1 = on_connection (Some ''1'') 11 (on_connection (Some ''2'') 10 server0)"

text \<open>\<^verbatim>\<open>parseInt\<close> on the two keys of \<open>server1\<close>.\<close>

definition parse_id :: "string \<Rightarrow> nat option" where
  "parse_id x = (if x = ''1'' then Some 1 else if x = ''2'' then Some 2 else None)"

text \<open>
  A run with a payload that carries Alice's key as \<^verbatim>\<open>id\<close> and amounts sent as strings:
  a deposit of \<^verbatim>\<open>"50"\<close>, withdrawal requests of \<^verbatim>\<open>"60"\<close> and \<^verbatim>\<open>"70"\<close>, then the admin rejects the
  first request (transaction 2) and approves the second (transaction 3).
\<close>

definition after_deposit :: store where
  "after_deposit = snd (deposit alice_with_id 3 (Txt ''50'') (Some ''BTC'') store0)"

definition after_requests :: store where
  "after_requests =
     snd (requestWithdrawal alice_with_id 5 (Txt ''70'') None (Some ''bc1q'') None
            (snd (requestWithdrawal alice_with_id 4 (Txt ''60'') None (Some ''bc1q'') None
                    after_deposit)))"

definition after_review :: store where
  "after_review = snd (approveWithdrawal 9 3 (snd (rejectWithdrawal 8 2 after_requests)))"

section \<open>Numbers of cents\<close>

lemma round_cents_of_int: "round_cents (of_int c / 100) = c"
proof (cases "0 \<le> c")
  case True
  then have "round_cents (of_int c / 100) = \<lfloor>(of_int c :: rat) + 1 / 2\<rfloor>"
    by (simp add: round_cents_def)
  also have "\<dots> = c" by linarith
  finally show ?thesis .
next
  case False
  then have "round_cents (of_int c / 100) = - \<lfloor>- (of_int c :: rat) + 1 / 2\<rfloor>"
    by (simp add: round_cents_def)
  also have "\<dots> = c" by linarith
  finally show ?thesis .
qed


lemma round_cents_nonneg: "0 \<le> r \<Longrightarrow> 0 \<le> round_cents r"
  by (simp add: round_cents_def)

lemma floor_rat_numeral:
  "\<lfloor>(numeral a / numeral b :: rat)\<rfloor> = numeral a div numeral b"
  using floor_divide_of_int_eq [of "numeral a" "numeral b", where ?'a = rat] by simp

lemma floor_rat_one:
  "\<lfloor>(1 / numeral b :: rat)\<rfloor> = 1 div numeral b"
  using floor_divide_of_int_eq [of 1 "numeral b", where ?'a = rat] by simp

lemmas round_cents_value = round_cents_def floor_rat_numeral floor_rat_one

lemma plus_json_cents:
  "plus_json (Decimal b) (Num (cents d)) = Num (cents (b + d))"
  by (simp add: plus_json_def number_of_decimal_def add_number_def cents_def add_divide_distrib)

lemma less_number_cents_zero: "less_number (cents c) (Finite 0) = (c < 0)"
  by (simp add: less_number_def cents_def)

lemma write_cents:
  "numeric_in (Num (cents c)) = Inr (Some (of_int c / 100))"
  "to_decimal (Some (of_int c / 100)) = (if fits c then Inr (Decimal c) else Inl NumericFieldOverflow)"
  by (simp_all add: numeric_in_def cents_def to_decimal_def round_cents_of_int)

section \<open>The balance engine: updateUserBalance\<close>

lemma update_users_balance_cents:
  assumes "users s i = Some row"
  shows "update_users_balance now (Some i) (Num (cents c)) s =
           (if fits c
            then (Inr (Some (row\<lparr>balance := Decimal c, userUpdatedAt := now\<rparr>)),
                  commit (s\<lparr>users := (users s)(i \<mapsto> row\<lparr>balance := Decimal c, userUpdatedAt := now\<rparr>)\<rparr>))
            else (Inl (Database NumericFieldOverflow), s))"
  using assms by (simp add: update_users_balance_def write_cents Let_def)

lemma updateUserBalance_ok:
  assumes "users s i = Some u" and "balance u = Decimal b" and "0 \<le> b + d" and "fits (b + d)"
  shows "updateUserBalance now (Some i) (Num (cents d)) s =
           (Inr (Some (u\<lparr>balance := Decimal (b + d), userUpdatedAt := now\<rparr>)),
            commit (s\<lparr>users := (users s)(i \<mapsto> u\<lparr>balance := Decimal (b + d), userUpdatedAt := now\<rparr>)\<rparr>))"
  using assms
  by (simp add: updateUserBalance_def getUser_def users_findFirst_def update_users_balance_cents
        plus_json_cents to_number_def less_number_cents_zero Let_def)

lemma updateUserBalance_insufficient:
  assumes "users s i = Some u" and "balance u = Decimal b" and "b + d < 0"
  shows "updateUserBalance now (Some i) (Num (cents d)) s = (Inl InsufficientBalance, s)"
  using assms
  by (simp add: updateUserBalance_def getUser_def users_findFirst_def
        plus_json_cents to_number_def less_number_cents_zero Let_def)

lemma updateUserBalance_overflow:
  assumes "users s i = Some u" and "balance u = Decimal b" and "0 \<le> b + d" and "\<not> fits (b + d)"
  shows "updateUserBalance now (Some i) (Num (cents d)) s = (Inl (Database NumericFieldOverflow), s)"
  using assms
  by (simp add: updateUserBalance_def getUser_def users_findFirst_def update_users_balance_cents
        plus_json_cents to_number_def less_number_cents_zero Let_def)

text \<open>
  A delta that is no whole number of cents: the guard compares the unrounded sum, the
  column stores the sum rounded to the cent.
\<close>

lemma updateUserBalance_number:
  assumes "users s i = Some u" and "balance u = Decimal b"
  shows "updateUserBalance now (Some i) (Num (Finite r)) s =
           (if of_int b / 100 + r < 0 then (Inl InsufficientBalance, s)
            else if fits (round_cents (of_int b / 100 + r))
            then (Inr (Some (u\<lparr>balance := Decimal (round_cents (of_int b / 100 + r)), userUpdatedAt := now\<rparr>)),
                  commit (s\<lparr>users := (users s)(i \<mapsto>
                            u\<lparr>balance := Decimal (round_cents (of_int b / 100 + r)), userUpdatedAt := now\<rparr>)\<rparr>))
            else (Inl (Database NumericFieldOverflow), s))"
  using assms
  by (simp add: updateUserBalance_def getUser_def users_findFirst_def update_users_balance_def
        plus_json_def add_number_def number_of_decimal_def cents_def to_number_def
        less_number_def numeric_in_def to_decimal_def Let_def)

lemma updateUserBalance_no_user:
  assumes "users_findFirst i s = None"
  shows "updateUserBalance now i amount s = (Inl (UserNotFound i), s)"
  using assms by (simp add: updateUserBalance_def getUser_def)

text \<open>
  C1. For a user of the store whose balance is a number of cents, and every delta that
  is a number of cents, positive or negative: when the old balance plus delta is not
  negative and the column can hold it, \<open>updateUserBalance\<close> succeeds, the user's balance
  in the new store is the old balance plus delta, only this user's row is written (its
  balance and its \<open>updatedAt\<close>) and the new state is committed; when the sum is negative
  it throws \<^verbatim>\<open>Error("Insufficient balance")\<close> and the store it leaves is the store it was
  given.
\<close>

theorem C1_updateUserBalance:
  assumes "users s i = Some u" and "balance u = Decimal b"
  shows "(0 \<le> b + d \<and> fits (b + d) \<longrightarrow>
            updateUserBalance now (Some i) (Num (cents d)) s =
              (Inr (Some (u\<lparr>balance := Decimal (b + d), userUpdatedAt := now\<rparr>)),
               commit (s\<lparr>users := (users s)(i \<mapsto> u\<lparr>balance := Decimal (b + d), userUpdatedAt := now\<rparr>)\<rparr>))
            \<and> balance_of i (snd (updateUserBalance now (Some i) (Num (cents d)) s)) = Some (Decimal (b + d))
            \<and> (\<forall>j. j \<noteq> i \<longrightarrow>
                  users (snd (updateUserBalance now (Some i) (Num (cents d)) s)) j = users s j))
       \<and> (b + d < 0 \<longrightarrow>
            updateUserBalance now (Some i) (Num (cents d)) s = (Inl InsufficientBalance, s))"
proof (intro conjI impI)
  assume ge: "0 \<le> b + d \<and> fits (b + d)"
  note ok = updateUserBalance_ok [OF assms(1,2) ge [THEN conjunct1] ge [THEN conjunct2], of now]
  show "updateUserBalance now (Some i) (Num (cents d)) s =
              (Inr (Some (u\<lparr>balance := Decimal (b + d), userUpdatedAt := now\<rparr>)),
               commit (s\<lparr>users := (users s)(i \<mapsto> u\<lparr>balance := Decimal (b + d), userUpdatedAt := now\<rparr>)\<rparr>))"
    by (rule ok)
  show "balance_of i (snd (updateUserBalance now (Some i) (Num (cents d)) s)) = Some (Decimal (b + d))"
    by (simp add: ok balance_of_def commit_def)
  show "\<forall>j. j \<noteq> i \<longrightarrow> users (snd (updateUserBalance now (Some i) (Num (cents d)) s)) j = users s j"
    by (simp add: ok commit_def)
next
  assume "b + d < 0"
  with assms(1,2) show "updateUserBalance now (Some i) (Num (cents d)) s = (Inl InsufficientBalance, s)"
    by (rule updateUserBalance_insufficient)
qed

theorem C1_updateUserBalance_witness:
  "users store0 1 = Some alice \<and> balance alice = Decimal (dollars 100)
   \<and> balance_of 1 (snd (updateUserBalance 7 (Some 1) (Num (cents (- dollars 25))) store0))
       = Some (Decimal (dollars 75))
   \<and> updateUserBalance 7 (Some 1) (Num (cents (- dollars 101))) store0
       = (Inl InsufficientBalance, store0)"
proof -
  have h1: "users store0 1 = Some alice"
    by (simp add: store0_def)
  have h2: "balance alice = Decimal (dollars 100)"
    by (simp add: alice_def)
  have f1: "fits (dollars 100 + - dollars 25)"
    by (simp add: fits_def dollars_def)
  have a: "0 \<le> dollars 100 + - dollars 25" and b: "dollars 100 + - dollars 101 < 0"
    and c: "dollars 100 + - dollars 25 = dollars 75"
    by (simp_all add: dollars_def)
  from C1_updateUserBalance [OF h1 h2, of "- dollars 25" 7] a f1
  have "balance_of 1 (snd (updateUserBalance 7 (Some 1) (Num (cents (- dollars 25))) store0))
       = Some (Decimal (dollars 100 + - dollars 25))"
    by blast
  then have "balance_of 1 (snd (updateUserBalance 7 (Some 1) (Num (cents (- dollars 25))) store0))
       = Some (Decimal (dollars 75))"
    by (simp only: c)
  moreover from C1_updateUserBalance [OF h1 h2, of "- dollars 101" 7] b
  have "updateUserBalance 7 (Some 1) (Num (cents (- dollars 101))) store0
       = (Inl InsufficientBalance, store0)"
    by blast
  ultimately show ?thesis using h1 h2 by simp
qed

section \<open>Approving and rejecting a withdrawal\<close>

lemma find_pending_withdrawal_Some:
  assumes "transactions s i = Some t" and "txType t = Withdrawal" and "txStatus t = Pending"
  shows "find_pending_withdrawal i s = Some t"
  using assms by (simp add: find_pending_withdrawal_def)

lemma find_pending_withdrawal_not_pending:
  assumes "transactions s i = Some t" and "txStatus t \<noteq> Pending"
  shows "find_pending_withdrawal i s = None"
  using assms by (simp add: find_pending_withdrawal_def)

lemma updateTransactionStatus_completed:
  assumes "transactions s i = Some t"
  shows "updateTransactionStatus now i ''completed'' s =
           (Inr (Some (t\<lparr>txStatus := Completed, txUpdatedAt := now\<rparr>)),
            commit (s\<lparr>transactions := (transactions s)(i \<mapsto> t\<lparr>txStatus := Completed, txUpdatedAt := now\<rparr>)\<rparr>))"
  using assms by (simp add: updateTransactionStatus_def transaction_status_of_def Let_def)

lemma updateTransactionStatus_rejected:
  assumes "transactions s i = Some t"
  shows "updateTransactionStatus now i ''rejected'' s =
           (Inr (Some (t\<lparr>txStatus := Rejected, txUpdatedAt := now\<rparr>)),
            commit (s\<lparr>transactions := (transactions s)(i \<mapsto> t\<lparr>txStatus := Rejected, txUpdatedAt := now\<rparr>)\<rparr>))"
  using assms by (simp add: updateTransactionStatus_def transaction_status_of_def Let_def)

lemma commit_fields [simp]:
  "users (commit s) = users s" "transactions (commit s) = transactions s"
  "investments (commit s) = investments s" "investmentPlans (commit s) = investmentPlans s"
  "chatMessages (commit s) = chatMessages s"
  "transactions_id_seq (commit s) = transactions_id_seq s"
  "investments_id_seq (commit s) = investments_id_seq s"
  "chat_messages_id_seq (commit s) = chat_messages_id_seq s"
  by (simp_all add: commit_def)

text \<open>
  C5. For a pending withdrawal whose owner is a user of the store, where the owner's
  balance and the amount are numbers of cents whose sum is not negative and fits the
  column: the first rejection answers 200, credits the owner's balance by the
  withdrawal's amount and sets the status to rejected, each in a statement of its own;
  a second rejection of the same id, at any later time, answers 404 "Pending withdrawal
  request not found" and leaves the store, so the balance and the transaction, as the
  first one left it. The balance is credited once.
\<close>

theorem C5_rejectWithdrawal_twice:
  assumes "transactions s i = Some t" and "txType t = Withdrawal" and "txStatus t = Pending"
    and "users s (txUserId t) = Some u" and "balance u = Decimal b" and "txAmount t = Decimal a"
    and "0 \<le> b + a" and "fits (b + a)"
  shows "rejectWithdrawal now i s =
           ((200, JsonTransaction (Some (t\<lparr>txStatus := Rejected, txUpdatedAt := now\<rparr>))),
            commit ((commit (s\<lparr>users := (users s)(txUserId t \<mapsto>
                                 u\<lparr>balance := Decimal (b + a), userUpdatedAt := now\<rparr>)\<rparr>))
                    \<lparr>transactions := (transactions s)(i \<mapsto> t\<lparr>txStatus := Rejected, txUpdatedAt := now\<rparr>)\<rparr>))
       \<and> balance_of (txUserId t) (snd (rejectWithdrawal now i s)) = Some (Decimal (b + a))
       \<and> transactions (snd (rejectWithdrawal now i s)) i
           = Some (t\<lparr>txStatus := Rejected, txUpdatedAt := now\<rparr>)
       \<and> rejectWithdrawal later i (snd (rejectWithdrawal now i s)) =
           ((404, Message ''Pending withdrawal request not found''), snd (rejectWithdrawal now i s))
       \<and> balance_of (txUserId t) (snd (rejectWithdrawal later i (snd (rejectWithdrawal now i s))))
           = Some (Decimal (b + a))"
proof -
  let ?u' = "u\<lparr>balance := Decimal (b + a), userUpdatedAt := now\<rparr>"
  let ?t' = "t\<lparr>txStatus := Rejected, txUpdatedAt := now\<rparr>"
  let ?s1 = "commit (s\<lparr>users := (users s)(txUserId t \<mapsto> ?u')\<rparr>)"
  let ?s2 = "commit (?s1\<lparr>transactions := (transactions s)(i \<mapsto> ?t')\<rparr>)"
  have f: "find_pending_withdrawal i s = Some t"
    using assms(1-3) by (rule find_pending_withdrawal_Some)
  have credit: "Num (number_of_decimal (txAmount t)) = Num (cents a)"
    using assms(6) by (simp add: number_of_decimal_def)
  have ub: "updateUserBalance now (Some (txUserId t)) (Num (cents a)) s = (Inr (Some ?u'), ?s1)"
    using assms(4,5,7,8) by (rule updateUserBalance_ok)
  have t1: "transactions ?s1 i = Some t" using assms(1) by simp
  have us: "updateTransactionStatus now i ''rejected'' ?s1 = (Inr (Some ?t'), ?s2)"
    using updateTransactionStatus_rejected [OF t1, of now] by simp
  have first: "rejectWithdrawal now i s = ((200, JsonTransaction (Some ?t')), ?s2)"
    by (simp add: rejectWithdrawal_def f credit ub us)
  have tr2: "transactions ?s2 i = Some ?t'" and "txStatus ?t' \<noteq> Pending" by simp_all
  then have "find_pending_withdrawal i ?s2 = None"
    by (rule find_pending_withdrawal_not_pending)
  then have second: "rejectWithdrawal later i ?s2 =
      ((404, Message ''Pending withdrawal request not found''), ?s2)"
    by (simp add: rejectWithdrawal_def)
  have bal: "balance_of (txUserId t) ?s2 = Some (Decimal (b + a))"
    by (simp add: balance_of_def)
  show ?thesis
    unfolding first snd_conv second using bal tr2 by simp
qed

theorem C5_rejectWithdrawal_twice_witness:
  "find_pending_withdrawal 1 store1 = Some withdrawal1
   \<and> balance_of 1 store1 = Some (Decimal (dollars 40))
   \<and> fst (rejectWithdrawal 8 1 store1)
       = (200, JsonTransaction (Some (withdrawal1\<lparr>txStatus := Rejected, txUpdatedAt := 8\<rparr>)))
   \<and> balance_of 1 (snd (rejectWithdrawal 8 1 store1)) = Some (Decimal (dollars 100))
   \<and> fst (rejectWithdrawal 9 1 (snd (rejectWithdrawal 8 1 store1)))
       = (404, Message ''Pending withdrawal request not found'')
   \<and> balance_of 1 (snd (rejectWithdrawal 9 1 (snd (rejectWithdrawal 8 1 store1))))
       = Some (Decimal (dollars 100))"
proof -
  have h1: "transactions store1 1 = Some withdrawal1" by (simp add: store1_def)
  have h2: "txType withdrawal1 = Withdrawal" and h3: "txStatus withdrawal1 = Pending"
    by (simp_all add: withdrawal1_def)
  have h4: "users store1 (txUserId withdrawal1)
              = Some (alice\<lparr>balance := Decimal (dollars 40), userUpdatedAt := 4\<rparr>)"
    by (simp add: store1_def withdrawal1_def)
  have h5: "balance (alice\<lparr>balance := Decimal (dollars 40), userUpdatedAt := 4\<rparr>) = Decimal (dollars 40)"
    by simp
  have h6: "txAmount withdrawal1 = Decimal (dollars 60)"
    by (simp add: withdrawal1_def)
  have h7: "0 \<le> dollars 40 + dollars 60" and h8: "fits (dollars 40 + dollars 60)"
    by (simp_all add: dollars_def fits_def)
  have own: "txUserId withdrawal1 = 1" by (simp add: withdrawal1_def)
  have sum: "dollars 40 + dollars 60 = dollars 100" by (simp add: dollars_def)
  note c5 = C5_rejectWithdrawal_twice [OF h1 h2 h3 h4 h5 h6 h7 h8, of 8 9]
  note e1 = c5 [THEN conjunct1]
  note e2 = c5 [THEN conjunct2, THEN conjunct1]
  note e4 = c5 [THEN conjunct2, THEN conjunct2, THEN conjunct2, THEN conjunct1]
  note e5 = c5 [THEN conjunct2, THEN conjunct2, THEN conjunct2, THEN conjunct2]
  have f: "find_pending_withdrawal 1 store1 = Some withdrawal1"
    using h1 h2 h3 by (simp add: find_pending_withdrawal_def)
  have b0: "balance_of 1 store1 = Some (Decimal (dollars 40))"
    by (simp add: store1_def balance_of_def)
  have a: "fst (rejectWithdrawal 8 1 store1)
             = (200, JsonTransaction (Some (withdrawal1\<lparr>txStatus := Rejected, txUpdatedAt := 8\<rparr>)))"
    by (subst e1) simp
  have b: "balance_of 1 (snd (rejectWithdrawal 8 1 store1)) = Some (Decimal (dollars 100))"
    using e2 unfolding own sum .
  have c: "fst (rejectWithdrawal 9 1 (snd (rejectWithdrawal 8 1 store1)))
       = (404, Message ''Pending withdrawal request not found'')"
    by (subst e4) simp
  have d: "balance_of 1 (snd (rejectWithdrawal 9 1 (snd (rejectWithdrawal 8 1 store1))))
       = Some (Decimal (dollars 100))"
    using e5 unfolding own sum .
  from f b0 a b c d show ?thesis by simp
qed

text \<open>
  C6. Approving a pending withdrawal answers 200 and rewrites this one transaction:
  its status becomes completed and its \<open>updatedAt\<close> the time of the approval, and the new
  state is committed. Every table but this row is as before; no user row, so no balance,
  is written. A second approval of the same id, at any later time, answers 404 and
  leaves the store exactly as the first approval left it: \<open>updatedAt\<close>, status and
  balances are not touched again.
\<close>

theorem C6_approveWithdrawal:
  assumes "transactions s i = Some t" and "txType t = Withdrawal" and "txStatus t = Pending"
  shows "approveWithdrawal now i s =
           ((200, JsonTransaction (Some (t\<lparr>txStatus := Completed, txUpdatedAt := now\<rparr>))),
            commit (s\<lparr>transactions := (transactions s)(i \<mapsto> t\<lparr>txStatus := Completed, txUpdatedAt := now\<rparr>)\<rparr>))
       \<and> users (snd (approveWithdrawal now i s)) = users s
       \<and> approveWithdrawal later i (snd (approveWithdrawal now i s)) =
           ((404, Message ''Pending withdrawal request not found''), snd (approveWithdrawal now i s))"
proof -
  let ?t' = "t\<lparr>txStatus := Completed, txUpdatedAt := now\<rparr>"
  let ?s1 = "commit (s\<lparr>transactions := (transactions s)(i \<mapsto> ?t')\<rparr>)"
  have f: "find_pending_withdrawal i s = Some t"
    using assms by (rule find_pending_withdrawal_Some)
  have first: "approveWithdrawal now i s = ((200, JsonTransaction (Some ?t')), ?s1)"
    by (simp add: approveWithdrawal_def f updateTransactionStatus_completed [OF assms(1)])
  have "transactions ?s1 i = Some ?t'" and "txStatus ?t' \<noteq> Pending" by simp_all
  then have "find_pending_withdrawal i ?s1 = None"
    by (rule find_pending_withdrawal_not_pending)
  then have "approveWithdrawal later i ?s1 =
      ((404, Message ''Pending withdrawal request not found''), ?s1)"
    by (simp add: approveWithdrawal_def)
  then show ?thesis unfolding first snd_conv by simp
qed

theorem C6_approveWithdrawal_witness:
  "find_pending_withdrawal 1 store1 = Some withdrawal1
   \<and> approveWithdrawal 8 1 store1 =
       ((200, JsonTransaction (Some (withdrawal1\<lparr>txStatus := Completed, txUpdatedAt := 8\<rparr>))),
        commit (store1\<lparr>transactions :=
                 (transactions store1)(1 \<mapsto> withdrawal1\<lparr>txStatus := Completed, txUpdatedAt := 8\<rparr>)\<rparr>))
   \<and> users (snd (approveWithdrawal 8 1 store1)) = users store1
   \<and> approveWithdrawal 9 1 (snd (approveWithdrawal 8 1 store1)) =
       ((404, Message ''Pending withdrawal request not found''), snd (approveWithdrawal 8 1 store1))"
proof -
  have h1: "transactions store1 1 = Some withdrawal1" by (simp add: store1_def)
  have h2: "txType withdrawal1 = Withdrawal" and h3: "txStatus withdrawal1 = Pending"
    by (simp_all add: withdrawal1_def)
  have f: "find_pending_withdrawal 1 store1 = Some withdrawal1"
    using h1 h2 h3 by (simp add: find_pending_withdrawal_def)
  from C6_approveWithdrawal [OF h1 h2 h3, of 8 9] f show ?thesis by blast
qed

section \<open>The connection registry\<close>

text \<open>
  C10. When an identity registers socket \<open>c1\<close> and then socket \<open>c2\<close>, the registry maps
  the identity to \<open>c2\<close>. The close listener of the stale socket \<open>c1\<close> then deletes the
  identity's entry: a lookup of the identity returns no connection, although the ready
  state of \<open>c2\<close> is what it was, so \<open>c2\<close> is still open if it was.
\<close>

theorem C10_stale_close_unregisters:
  assumes "uid \<noteq> []"
  shows "lookup uid (on_connection (Some uid) c2 (on_connection (Some uid) c1 srv)) = Some c2
       \<and> lookup uid (on_close c1 (on_connection (Some uid) c2 (on_connection (Some uid) c1 srv))) = None
       \<and> readyState (on_close c1 (on_connection (Some uid) c2 (on_connection (Some uid) c1 srv))) c2
           = readyState srv c2"
  using assms
  by (simp add: lookup_def on_connection_def on_close_def update_conv delete_conv)

theorem C10_stale_close_unregisters_witness:
  "''1'' \<noteq> []
   \<and> lookup ''1'' (on_connection (Some ''1'') 12 (on_connection (Some ''1'') 11 server0)) = Some 12
   \<and> lookup ''1'' (on_close 11 (on_connection (Some ''1'') 12 (on_connection (Some ''1'') 11 server0))) = None
   \<and> readyState (on_close 11 (on_connection (Some ''1'') 12 (on_connection (Some ''1'') 11 server0))) 12 = OPEN"
proof -
  have h: "''1'' \<noteq> []" by simp
  have o: "readyState server0 12 = OPEN" by (simp add: server0_def)
  from C10_stale_close_unregisters [OF h, of 12 11 server0] o h show ?thesis by simp
qed

section \<open>Chat messages over the socket\<close>

lemma broadcast_to_admins_sends_nothing:
  "broadcast_to_admins parseInt m cs srv = srv"
  by (induction cs arbitrary: srv) (auto simp: Let_def)

lemma chat_branch_sends_nothing:
  "sent (chat_branch parseInt now userId content srv) = sent srv"
  by (simp add: chat_branch_def broadcast_to_admins_sends_nothing split: prod.splits sum.splits)

lemma chat_branch_persists:
  assumes "parseInt userId = Some uid" and "users (db srv) uid = Some u"
  shows "chatMessages (db (chat_branch parseInt now userId (Some content) srv)) (chat_messages_id_seq (db srv))
           = Some \<lparr>msgId = chat_messages_id_seq (db srv), msgUserId = uid, msgContent = content,
                    msgStatus = Unread, adminResponse = None, adminId = None,
                    msgCreatedAt = now, msgUpdatedAt = now\<rparr>"
  using assms
  by (simp add: chat_branch_def insert_chatMessages_def broadcast_to_admins_sends_nothing Let_def)

text \<open>
  C9 on the code. The admin (user 2) is registered on the open socket 10 and Alice
  (user 1) on socket 11 when Alice sends \<^verbatim>\<open>{type:"chat", content:"hello"}\<close> at time 6. The
  message is persisted with status unread, and no frame is sent to anyone: the admin
  gets no \<^verbatim>\<open>new_message\<close> push.
\<close>

theorem C9_chat_admin_not_notified:
  "lookup ''2'' server1 = Some 10
   \<and> map_option role (users (db server1) 2) = Some RoleAdmin
   \<and> readyState server1 10 = OPEN
   \<and> chatMessages (db (chat_branch parse_id 6 ''1'' (Some ''hello'') server1)) 1 =
       Some \<lparr>msgId = 1, msgUserId = 1, msgContent = ''hello'', msgStatus = Unread,
             adminResponse = None, adminId = None, msgCreatedAt = 6, msgUpdatedAt = 6\<rparr>
   \<and> sent (chat_branch parse_id 6 ''1'' (Some ''hello'') server1) = []"
  by (simp add: chat_branch_def insert_chatMessages_def users_findFirst_def parse_id_def
        lookup_def server1_def server0_def on_connection_def store0_def admin_def Let_def
        broadcast_to_admins_sends_nothing)

section \<open>Investing\<close>








section \<open>Deposits and withdrawal requests on the code\<close>

lemmas evaluation =
  deposit_def deposit_data_def requestWithdrawal_def withdrawal_data_def
  createTransaction_def transaction_insertData_def insertTransactionSchema_def
  insert_transactions_def updateUserBalance_def update_users_balance_def getUser_def
  users_findFirst_def truthy_nat_def truthy_json_def truthy_string_def or_null_def
  negate_def to_number_def string_to_number_def trim_def signed_numeral_def
  unsigned_numeral_def digit_of_def less_number_def add_number_def plus_json_def
  number_of_decimal_def decimal_toString_def cents_toString_def digits_of.simps
  fraction_of_def cents_def numeric_in_def is_NaN_text_def to_decimal_def round_cents_value
  fits_def commit_def snapshot_of_def balance_of_def generateToken_def alice_token_def
  alice_with_id_def store0_def alice_def dollars_def Let_def

text \<open>
  C7 on the code. Alice has $100.00. With the token \<^verbatim>\<open>POST /api/login\<close> issues to her
  (its payload names her as \<^verbatim>\<open>userId\<close>, the route reads \<^verbatim>\<open>req.user.id\<close>), a deposit of 100,
  sent as the number the client sends or as a string, answers 500 and writes nothing.
  With a payload that carries her key as \<^verbatim>\<open>id\<close>, the number 100 is refused by the
  validation schema (500, nothing written), and the string \<^verbatim>\<open>"50"\<close> creates a completed
  deposit of $50.00 but sets her balance to $10050.00, the text \<^verbatim>\<open>"100"\<close> followed by
  \<^verbatim>\<open>"50"\<close>. Below the minimum the route answers 400 and writes nothing.
\<close>

theorem C7_deposit_on_code:
  "balance_of 1 store0 = Some (Decimal (dollars 100))
   \<and> id_claim alice_token = None \<and> userId_claim alice_token = Some 1
   \<and> deposit alice_token 3 (Num (Finite 100)) (Some ''BTC'') store0
       = ((500, Message ''Error processing deposit''), store0)
   \<and> deposit alice_token 3 (Txt ''100'') (Some ''BTC'') store0
       = ((500, Message ''Error processing deposit''), store0)
   \<and> deposit alice_with_id 3 (Num (Finite 100)) (Some ''BTC'') store0
       = ((500, Message ''Error processing deposit''), store0)
   \<and> fst (deposit alice_with_id 3 (Txt ''50'') (Some ''BTC'') store0)
       = (201, JsonTransaction
                 (Some \<lparr>txId = 1, txUserId = 1, txType = Deposit, txAmount = Decimal (dollars 50),
                        txCurrency = Some ''BTC'', txWalletAddress = None, txReason = None,
                        txStatus = Completed, txCreatedAt = 3, txUpdatedAt = 3\<rparr>))
   \<and> balance_of 1 (snd (deposit alice_with_id 3 (Txt ''50'') (Some ''BTC'') store0))
       = Some (Decimal (dollars 10050))
   \<and> deposit alice_with_id 3 (Txt ''49'') (Some ''BTC'') store0
       = ((400, Message ''Minimum deposit amount is $50''), store0)"
  by (simp add: evaluation)

text \<open>
  C3 on the code. Alice has $100.00. With the token \<^verbatim>\<open>POST /api/login\<close> issues to her, a
  withdrawal request of 60, as a number or as a string, answers 400 "Insufficient
  balance" and writes nothing: the route looks the user up by \<^verbatim>\<open>req.user.id\<close>, which the
  payload does not carry, and finds no row. With a payload that carries her key as
  \<^verbatim>\<open>id\<close>, the number 60 the client sends is refused by the validation schema (500, nothing
  written); only the string \<^verbatim>\<open>"60"\<close> creates the pending withdrawal and debits $60.00.
\<close>

theorem C3_requestWithdrawal_on_code:
  "balance_of 1 store0 = Some (Decimal (dollars 100))
   \<and> id_claim alice_token = None \<and> userId_claim alice_token = Some 1
   \<and> requestWithdrawal alice_token 4 (Num (Finite 60)) None (Some ''bc1q'') None store0
       = ((400, Message ''Insufficient balance''), store0)
   \<and> requestWithdrawal alice_token 4 (Txt ''60'') None (Some ''bc1q'') None store0
       = ((400, Message ''Insufficient balance''), store0)
   \<and> requestWithdrawal alice_with_id 4 (Num (Finite 60)) None (Some ''bc1q'') None store0
       = ((500, Message ''Error processing withdrawal''), store0)
   \<and> fst (requestWithdrawal alice_with_id 4 (Txt ''60'') None (Some ''bc1q'') None store0)
       = (201, JsonTransaction
                 (Some \<lparr>txId = 1, txUserId = 1, txType = Withdrawal, txAmount = Decimal (dollars 60),
                        txCurrency = Some ''USD'', txWalletAddress = Some ''bc1q'', txReason = None,
                        txStatus = Pending, txCreatedAt = 4, txUpdatedAt = 4\<rparr>))
   \<and> balance_of 1 (snd (requestWithdrawal alice_with_id 4 (Txt ''60'') None (Some ''bc1q'') None store0))
       = Some (Decimal (dollars 40))"
  by (simp add: evaluation)

text \<open>
  C2 on the code. Alice starts with $100.00 and no transaction. Her deposit of \<^verbatim>\<open>"50"\<close>
  is answered 201 and recorded as a completed deposit of $50.00, and her balance becomes
  $10050.00, where the equation of the claim gives $150.00. After the two withdrawal
  requests, the rejection and the approval, her completed deposits are $50.00, the
  withdrawals created $130.00 and the rejected ones $60.00, so the equation gives $80.00;
  her balance is $9980.00.
\<close>

theorem C2_final_balance_on_code:
  "balance_of 1 store0 = Some (Decimal (dollars 100))
   \<and> completed_deposits 1 store0 = 0 \<and> profits 1 store0 = 0
   \<and> withdrawals_created 1 store0 = 0 \<and> withdrawals_rejected 1 store0 = 0
   \<and> fst (fst (deposit alice_with_id 3 (Txt ''50'') (Some ''BTC'') store0)) = 201
   \<and> completed_deposits 1 after_deposit = dollars 50 \<and> profits 1 after_deposit = 0
   \<and> withdrawals_created 1 after_deposit = 0 \<and> withdrawals_rejected 1 after_deposit = 0
   \<and> balance_of 1 after_deposit = Some (Decimal (dollars 10050))
   \<and> completed_deposits 1 after_review = dollars 50 \<and> profits 1 after_review = 0
   \<and> withdrawals_created 1 after_review = dollars 130
   \<and> withdrawals_rejected 1 after_review = dollars 60
   \<and> balance_of 1 after_review = Some (Decimal (dollars 9980))
   \<and> dollars 100 + dollars 50 + 0 - dollars 130 + dollars 60 = dollars 80"
  by (simp add: evaluation after_deposit_def after_requests_def after_review_def
        approveWithdrawal_def rejectWithdrawal_def find_pending_withdrawal_def
        updateTransactionStatus_def transaction_status_of_def
        completed_deposits_def profits_def withdrawals_created_def withdrawals_rejected_def
        sum_transactions_def counted_def amount_cents_def
        upt_rec [of _ "numeral _"] upt_rec [of _ "Suc _"])

section \<open>Balances that are not numbers\<close>

text \<open>
  What \<open>updateUserBalance\<close> writes is never a negative number: it is a number of cents
  that is not negative, or \<^verbatim>\<open>NaN\<close>.
\<close>

lemma written_balance_not_negative:
  assumes "\<not> less_number (to_number v) (Finite 0)" and "numeric_in v = Inr x"
    and "to_decimal x = Inr d"
  shows "d = NaN_decimal \<or> (\<exists>c. d = Decimal c \<and> 0 \<le> c)"
proof (cases x)
  case None
  with assms(3) show ?thesis by (simp add: to_decimal_def)
next
  case (Some r)
  have "0 \<le> r"
  proof (cases v)
    case Absent
    with assms(2) show ?thesis by (simp add: numeric_in_def)
  next
    case (Num n)
    with assms(1,2) Some show ?thesis
      by (cases n) (simp_all add: numeric_in_def to_number_def less_number_def)
  next
    case (Txt y)
    with assms(2) Some have p: "signed_numeral (trim y) = Some r"
      by (simp add: numeric_in_def split: if_splits option.splits)
    then have "trim y \<noteq> []" by (auto simp: signed_numeral_def)
    with assms(1) Txt p show ?thesis
      by (simp add: to_number_def string_to_number_def less_number_def)
  qed
  with assms(3) Some show ?thesis
    by (auto simp: to_decimal_def round_cents_nonneg split: if_splits)
qed

lemma updateUserBalance_never_negative:
  assumes "updateUserBalance now i amount s = (Inr (Some u'), s')"
  shows "balance u' = NaN_decimal \<or> (\<exists>c. balance u' = Decimal c \<and> 0 \<le> c)"
proof -
  from assms obtain u where g: "getUser i s = Inr u"
    by (auto simp: updateUserBalance_def split: sum.splits)
  let ?n = "plus_json (balance u) amount"
  from assms g have guard: "\<not> less_number (to_number ?n) (Finite 0)"
    and w: "update_users_balance now i ?n s = (Inr (Some u'), s')"
    by (auto simp: updateUserBalance_def Let_def split: if_splits)
  from w obtain x d where "numeric_in ?n = Inr x" and "to_decimal x = Inr d" and "balance u' = d"
    by (auto simp: update_users_balance_def Let_def split: sum.splits option.splits)
  with guard written_balance_not_negative show ?thesis by metis
qed

text \<open>
  C8 on the code. In \<open>store0\<close> the balances are $100.00 and $0.00. With a payload that
  carries Alice's key as \<^verbatim>\<open>id\<close>, a withdrawal request whose amount is the string \<^verbatim>\<open>"NaN"\<close>
  passes the minimum guard and the balance guard (both comparisons are false on \<^verbatim>\<open>NaN\<close>),
  is recorded with the amount \<^verbatim>\<open>NaN\<close>, and \<open>updateUserBalance\<close>, whose guard
  \<^verbatim>\<open>newBalance < 0\<close> is false as well, writes \<^verbatim>\<open>NaN\<close> into Alice's balance: the route answers
  201 and the balance is no longer a number that is not negative.
\<close>

theorem C8_balance_not_a_number:
  "balance_of 1 store0 = Some (Decimal (dollars 100)) \<and> nonnegative (Decimal (dollars 100))
   \<and> balance_of 2 store0 = Some (Decimal 0) \<and> nonnegative (Decimal 0)
   \<and> to_number (Txt ''NaN'') = NaN
   \<and> less_number (to_number (Txt ''NaN'')) (Finite 50) = False
   \<and> less_number (number_of_decimal (Decimal (dollars 100))) (to_number (Txt ''NaN'')) = False
   \<and> fst (requestWithdrawal alice_with_id 4 (Txt ''NaN'') None (Some ''bc1q'') None store0)
       = (201, JsonTransaction
                 (Some \<lparr>txId = 1, txUserId = 1, txType = Withdrawal, txAmount = NaN_decimal,
                        txCurrency = Some ''USD'', txWalletAddress = Some ''bc1q'', txReason = None,
                        txStatus = Pending, txCreatedAt = 4, txUpdatedAt = 4\<rparr>))
   \<and> balance_of 1 (snd (requestWithdrawal alice_with_id 4 (Txt ''NaN'') None (Some ''bc1q'') None store0))
       = Some NaN_decimal
   \<and> nonnegative NaN_decimal = False"
  by (simp add: evaluation nonnegative_def admin_def)

end
